theory Spec2Isabelle
  imports Complex_Main
begin

section \<open>Strings\<close>

text \<open>
  A Python \<open>str\<close> is modelled as a \<open>string\<close>; every \<open>char\<close> stands for one code
  point below 256. The string methods used by \<open>scripts/parse.py\<close> follow.
\<close>

text \<open>\<open>s.startswith(p)\<close>\<close>

definition startswith :: "string \<Rightarrow> string \<Rightarrow> bool" where
  "startswith s p = (take (length p) s = p)"

text \<open>
  \<open>c.isspace()\<close> for a code point below 256: tab, line feed, vertical tab, form feed,
  carriage return, the four separators 0x1C..0x1F, space, NEL (0x85) and the no-break
  space (0xA0). These are the characters \<open>str.split()\<close> splits at.
\<close>

definition isspace :: "char \<Rightarrow> bool" where
  "isspace c = (let n = (of_char c :: nat) in
     (9 \<le> n \<and> n \<le> 13) \<or> (28 \<le> n \<and> n \<le> 32) \<or> n = 133 \<or> n = 160)"

text \<open>
  \<open>s.split()\<close> with no argument: the maximal runs of non-whitespace characters, in
  order; leading and trailing whitespace gives no empty field. \<open>cur\<close> is the field
  being read.
\<close>

fun split_aux :: "string \<Rightarrow> string \<Rightarrow> string list" where
  "split_aux cur [] = (if cur = [] then [] else [cur])"
| "split_aux cur (c # cs) =
     (if isspace c then (if cur = [] then split_aux [] cs else cur # split_aux [] cs)
      else split_aux (cur @ [c]) cs)"

definition split_ws :: "string \<Rightarrow> string list" where
  "split_ws s = split_aux [] s"

text \<open>
  \<open>s.split(sep)\<close> for a one-character separator: every separator ends a field, so
  empty fields are kept and the empty string gives one empty field.
\<close>

fun split_on_aux :: "char \<Rightarrow> string \<Rightarrow> string \<Rightarrow> string list" where
  "split_on_aux sep cur [] = [cur]"
| "split_on_aux sep cur (c # cs) =
     (if c = sep then cur # split_on_aux sep [] cs else split_on_aux sep (cur @ [c]) cs)"

definition split_on :: "char \<Rightarrow> string \<Rightarrow> string list" where
  "split_on sep s = split_on_aux sep [] s"

text \<open>
  \<open>s.replace(old, new)\<close>: the occurrences of \<open>old\<close> are replaced from left to right,
  without overlap. For an empty \<open>old\<close> Python puts \<open>new\<close> before every character and at
  the end.
\<close>

function replace_ne :: "string \<Rightarrow> string \<Rightarrow> string \<Rightarrow> string" where
  "replace_ne old new [] = []"
| "replace_ne old new (c # cs) =
     (if old \<noteq> [] \<and> startswith (c # cs) old
      then new @ replace_ne old new (drop (length old) (c # cs))
      else c # replace_ne old new cs)"
  by pat_completeness auto
termination
  by (relation "measure (\<lambda>(old, new, s). length s)") auto

definition replace :: "string \<Rightarrow> string \<Rightarrow> string \<Rightarrow> string" where
  "replace s old new =
     (if old = [] then concat (map (\<lambda>c. new @ [c]) s) @ new else replace_ne old new s)"

text \<open>
  \<open>template.format(*args)\<close> for templates whose only replacement fields are \<open>{}\<close>: the
  i-th \<open>{}\<close> is replaced by the i-th argument. Python raises IndexError when the
  arguments run out; every call of the program passes as many arguments as its template
  has fields, and the model leaves such a field as it is.
\<close>

fun format_str :: "string \<Rightarrow> string list \<Rightarrow> string" where
  "format_str [] args = []"
| "format_str (c # t) args =
     (if c = CHR ''{'' \<and> t \<noteq> [] \<and> hd t = CHR ''}'' \<and> args \<noteq> []
      then hd args @ format_str (tl t) (tl args)
      else c # format_str t args)"

text \<open>\<open>sep.join(xs)\<close>\<close>

fun join :: "string \<Rightarrow> string list \<Rightarrow> string" where
  "join sep [] = []"
| "join sep [x] = x"
| "join sep (x # y # ys) = x @ sep @ join sep (y # ys)"

section \<open>Values and errors\<close>

text \<open>
  The values the program builds and hands to \<open>json.dumps\<close>: strings, integers, floats,
  lists and \<open>OrderedDict\<close>s, the latter as association lists in insertion order. The
  type \<open>'f\<close> is the type of floats: what Python's builtin \<open>float\<close> returns.
\<close>

datatype 'f json =
    JStr string
  | JInt int
  | JNum 'f
  | JObj "(string \<times> 'f json) list"
  | JArr "'f json list"

text \<open>\<open>d[k] = v\<close> on an OrderedDict: an existing key keeps its place, a new key goes last.\<close>

fun od_set :: "(string \<times> 'v) list \<Rightarrow> string \<Rightarrow> 'v \<Rightarrow> (string \<times> 'v) list" where
  "od_set [] k v = [(k, v)]"
| "od_set ((k', v') # d) k v = (if k' = k then (k, v) # d else (k', v') # od_set d k v)"

text \<open>Reading a key of an object, and following a path of keys into nested objects.\<close>

fun get_key :: "'f json \<Rightarrow> string \<Rightarrow> 'f json option" where
  "get_key (JObj d) k = map_of d k"
| "get_key _ k = None"

fun get_path :: "'f json \<Rightarrow> string list \<Rightarrow> 'f json option" where
  "get_path j [] = Some j"
| "get_path j (k # ks) = (case get_key j k of None \<Rightarrow> None | Some j' \<Rightarrow> get_path j' ks)"

text \<open>
  The exceptions the program can end with. \<open>RuntimeError\<close> carries the HTTP status code
  its message is formatted from; \<open>RequestError\<close> stands for any exception of
  \<open>requests.get\<close> other than \<open>SSLError\<close>, \<open>IOError\<close> for a failing \<open>open\<close>.
\<close>

datatype error =
    TypeError
  | ValueError
  | AttributeError
  | SSLError
  | RequestError
  | IOError
  | RuntimeError int

definition bind_err :: "error + 'a \<Rightarrow> ('a \<Rightarrow> error + 'b) \<Rightarrow> error + 'b" where
  "bind_err m f = (case m of Inl e \<Rightarrow> Inl e | Inr v \<Rightarrow> f v)"

section \<open>The constants of \<open>scripts/parse.py\<close>\<close>

definition CSV_URL :: string where
  "CSV_URL = ''https://www.astro.keele.ac.uk/jkt/tepcat/allplanets-csv.csv''"

definition ASCII_URL :: string where
  "ASCII_URL = ''https://www.astro.keele.ac.uk/jkt/tepcat/allplanets-ascii.txt''"

definition HUMAN_URL :: string where
  "HUMAN_URL = ''https://www.astro.keele.ac.uk/jkt/tepcat/planets/{}.html''"

definition ARXIV_URL :: string where
  "ARXIV_URL = ''https://arxiv.org/abs/{}''"

definition FALLBACK_URL :: string where
  "FALLBACK_URL = ''http://adsabs.harvard.edu/abs/{}''"

definition HELP_URL :: string where
  "HELP_URL = ''https://www.astro.keele.ac.uk/jkt/tepcat/html-quantities.html''"

section \<open>\<open>fetch_source\<close>\<close>

text \<open>
  The outside world is two functions: \<open>get\<close>, what \<open>requests.get\<close> does at a URL (it
  raises or returns a response), and \<open>read_file\<close>, what opening and reading a path does.
  Besides its result, the model returns the URLs it requested, in order.
\<close>

text \<open>A response of \<open>requests\<close>: its \<open>status_code\<close> and its \<open>text\<close> (here \<open>resp_text\<close>).\<close>

record response =
  status_code :: int
  resp_text :: string

definition fetch_source ::
  "(string \<Rightarrow> error + response) \<Rightarrow> (string \<Rightarrow> error + string) \<Rightarrow> bool \<Rightarrow> string
   \<Rightarrow> string list \<times> (error + string list)" where
  "fetch_source get read_file web URI =
     (if web then
        (let (requested, r) =
           (case get URI of
              Inl e \<Rightarrow>
                (if e = SSLError
                 then ([URI, replace URI ''https'' ''http''],
                       get (replace URI ''https'' ''http''))
                 else ([URI], Inl e))
            | Inr resp \<Rightarrow> ([URI], Inr resp))
         in (requested,
             bind_err r (\<lambda>resp.
               if status_code resp \<noteq> 200 then Inl (RuntimeError (status_code resp))
               else Inr (split_on CHR 0x0A (resp_text resp)))))
      else ([], bind_err (read_file URI) (\<lambda>source. Inr (split_on CHR 0x0A source))))"

section \<open>\<open>parse_ascii\<close> and \<open>parse_csv\<close>\<close>

text \<open>The field names of the namedtuple \<open>Properties\<close>, in column order.\<close>

definition props :: "string list" where
  "props = [
     ''system'',
     ''Teff'', ''Teff_erru'', ''Teff_errd'', ''FeH'', ''FeH_erru'', ''FeH_errd'',
     ''Msun'', ''Msun_erru'', ''Msun_errd'', ''Rsun'', ''Rsun_erru'', ''Rsun_errd'',
     ''cgs'', ''cgs_erru'', ''cgs_errd'', ''rhosun'', ''rhosun_erru'', ''rhosun_errd'',
     ''Porb'',
     ''ecc'', ''ecc_erru'', ''ecc_errd'', ''a_AU'', ''a_AU_erru'', ''a_AU_errd'',
     ''Mjup'', ''Mjup_erru'', ''Mjup_errd'', ''Rjup'', ''Rjup_erru'', ''Rjup_errd'',
     ''ms2'', ''ms2_erru'', ''ms2_errd'', ''rhoJup'', ''rhoJup_erru'', ''rhoJup_errd'',
     ''Teqk'', ''Teqk_erru'', ''Teqk_errd'',
     ''d_ref'', ''r_ref'']"

text \<open>
  \<open>Properties(*args)\<close>: the namedtuple constructor raises TypeError unless it gets one
  argument per field name. The tuple is the list of its fields, each with its name.
\<close>

definition Properties :: "string list \<Rightarrow> error + (string \<times> string) list" where
  "Properties args =
     (if length args = length props then Inr (zip props args) else Inl TypeError)"

text \<open>\<open>getattr(x, name)\<close> raises AttributeError for a name that is no field.\<close>

definition getattr :: "(string \<times> string) list \<Rightarrow> string \<Rightarrow> error + string" where
  "getattr x name = (case map_of x name of None \<Rightarrow> Inl AttributeError | Some v \<Rightarrow> Inr v)"

text \<open>
  \<open>float(s)\<close>: Python's builtin is the parameter \<open>flt\<close>, which gives \<open>None\<close> where the
  builtin raises ValueError.
\<close>

definition float :: "(string \<Rightarrow> 'f option) \<Rightarrow> string \<Rightarrow> error + 'f" where
  "float flt s = (case flt s of None \<Rightarrow> Inl ValueError | Some v \<Rightarrow> Inr v)"

text \<open>The two versions of the closure \<open>get_data\<close>, chosen by \<open>skip_err_margins\<close>.\<close>

definition get_data ::
  "(string \<Rightarrow> 'f option) \<Rightarrow> bool \<Rightarrow> (string \<times> string) list \<Rightarrow> string \<Rightarrow> error + 'f json" where
  "get_data flt skip_err_margins x param =
     (if skip_err_margins then
        bind_err (getattr x param) (\<lambda>s.
        bind_err (float flt s) (\<lambda>v.
        Inr (JNum v)))
      else
        bind_err (getattr x param) (\<lambda>s.
        bind_err (float flt s) (\<lambda>v.
        let ret = od_set [] ''value'' (JNum v) in
        bind_err (getattr x (format_str ''{}_{}'' [param, ''erru''])) (\<lambda>su.
        bind_err (float flt su) (\<lambda>vu.
        let ret = od_set ret ''error_plus'' (JNum vu) in
        bind_err (getattr x (format_str ''{}_{}'' [param, ''errd''])) (\<lambda>sd.
        bind_err (float flt sd) (\<lambda>vd.
        let ret = od_set ret ''error_minus'' (JNum vd) in
        Inr (JObj ret))))))))"

text \<open>The URL made from a reference code (the source does this for \<open>d_ref\<close> and \<open>r_ref\<close>).\<close>

definition ref_url :: "string \<Rightarrow> string" where
  "ref_url code =
     (if startswith code ''arXiv'' then format_str ARXIV_URL [code]
      else replace (format_str FALLBACK_URL [code]) ''+'' ''&'')"

text \<open>
  The body of the loop for a line that is not skipped: the row of that line. The source
  stores the empty groups \<open>stellar_properties\<close>, \<open>planetary_properties\<close> and
  \<open>references\<close> in the row first and fills them in place; here each group is filled and
  then stored, which gives the same row, with the same key order, and the same error.
\<close>

definition parse_line :: "(string \<Rightarrow> 'f option) \<Rightarrow> bool \<Rightarrow> string \<Rightarrow> error + 'f json" where
  "parse_line flt skip_err_margins line =
     bind_err (Properties (split_ws line)) (\<lambda>x.
     bind_err (getattr x ''system'') (\<lambda>system.
     let row = od_set [] ''system'' (JStr system) in
     bind_err (getattr x ''Porb'') (\<lambda>porb.
     bind_err (float flt porb) (\<lambda>period.
     let row = od_set row ''period'' (JNum period) in
     bind_err (get_data flt skip_err_margins x ''ecc'') (\<lambda>ecc.
     let row = od_set row ''eccentricity'' ecc in
     bind_err (get_data flt skip_err_margins x ''a_AU'') (\<lambda>a_AU.
     let row = od_set row ''semimajor_AU'' a_AU in
     bind_err (get_data flt skip_err_margins x ''Teff'') (\<lambda>teff.
     let stellar = od_set [] ''temp_k'' teff in
     bind_err (get_data flt skip_err_margins x ''FeH'') (\<lambda>feh.
     let stellar = od_set stellar ''metal_log'' feh in
     bind_err (get_data flt skip_err_margins x ''Msun'') (\<lambda>msun.
     let stellar = od_set stellar ''mass_sol'' msun in
     bind_err (get_data flt skip_err_margins x ''Rsun'') (\<lambda>rsun.
     let stellar = od_set stellar ''radius_sol'' rsun in
     bind_err (get_data flt skip_err_margins x ''cgs'') (\<lambda>cgs.
     let stellar = od_set stellar ''gravity_log_cgs'' cgs in
     bind_err (get_data flt skip_err_margins x ''rhosun'') (\<lambda>rhosun.
     let stellar = od_set stellar ''density_sol'' rhosun in
     let row = od_set row ''stellar_properties'' (JObj stellar) in
     bind_err (get_data flt skip_err_margins x ''Mjup'') (\<lambda>mjup.
     let planetary = od_set [] ''mass_jup'' mjup in
     bind_err (get_data flt skip_err_margins x ''Rjup'') (\<lambda>rjup.
     let planetary = od_set planetary ''radius_jup'' rjup in
     bind_err (get_data flt skip_err_margins x ''ms2'') (\<lambda>ms2.
     let planetary = od_set planetary ''gravity'' ms2 in
     bind_err (get_data flt skip_err_margins x ''rhoJup'') (\<lambda>rhojup.
     let planetary = od_set planetary ''density_jup'' rhojup in
     bind_err (get_data flt skip_err_margins x ''Teqk'') (\<lambda>teqk.
     let planetary = od_set planetary ''temp_eq_k'' teqk in
     let row = od_set row ''planetary_properties'' (JObj planetary) in
     let refs = od_set [] ''human_url'' (JStr (format_str HUMAN_URL [system])) in
     bind_err (getattr x ''d_ref'') (\<lambda>d_ref.
     let refs = od_set refs ''discovery'' (JStr (ref_url d_ref)) in
     bind_err (getattr x ''r_ref'') (\<lambda>r_ref.
     let refs = od_set refs ''recent'' (JStr (ref_url r_ref)) in
     let row = od_set row ''references'' (JObj refs) in
     Inr (JObj row))))))))))))))))))))"

text \<open>
  Whether the loop skips a line: \<open>line.startswith('#') or not line\<close>.
\<close>

definition skipped :: "string \<Rightarrow> bool" where
  "skipped line = (startswith line ''#'' \<or> line = [])"

text \<open>The loop over the lines; \<open>ret\<close> is the list of rows appended so far.\<close>

fun parse_loop ::
  "(string \<Rightarrow> 'f option) \<Rightarrow> bool \<Rightarrow> string list \<Rightarrow> 'f json list \<Rightarrow> error + 'f json list" where
  "parse_loop flt skip_err_margins [] ret = Inr ret"
| "parse_loop flt skip_err_margins (line # src) ret =
     (if skipped line then parse_loop flt skip_err_margins src ret
      else bind_err (parse_line flt skip_err_margins line) (\<lambda>row.
           parse_loop flt skip_err_margins src (ret @ [row])))"

definition parse_ascii ::
  "(string \<Rightarrow> 'f option) \<Rightarrow> string list \<Rightarrow> bool \<Rightarrow> error + 'f json list" where
  "parse_ascii flt src skip_err_margins = parse_loop flt skip_err_margins src []"

text \<open>\<open>src[1:]\<close> is \<open>drop 1\<close>: the slice of an empty list is empty.\<close>

definition parse_csv ::
  "(string \<Rightarrow> 'f option) \<Rightarrow> string list \<Rightarrow> bool \<Rightarrow> error + 'f json list" where
  "parse_csv flt src skip_err_margins =
     (let new_src = map (\<lambda>x. replace x '','' '' '') (drop 1 src)
      in parse_ascii flt new_src skip_err_margins)"

section \<open>\<open>build_output\<close>\<close>

text \<open>
  The clock is the parameter \<open>now\<close>: what \<open>datetime.datetime.utcnow()\<close> returned, given
  by its two renderings, the text \<open>'{0:%Y-%b-%d %X}'.format(now)\<close> and the integer
  \<open>timegm(now.timetuple())\<close>.
\<close>

record utc_instant =
  human_utc :: string
  unix_utc :: int

definition build_output :: "utc_instant \<Rightarrow> 'f json list \<Rightarrow> bool \<Rightarrow> 'f json" where
  "build_output now data timestamp =
     (let ret = [];
          ret = (if timestamp then
                   od_set (od_set ret ''fetched_data_human_utc'' (JStr (human_utc now)))
                     ''fetched_data_unix_utc'' (JInt (unix_utc now))
                 else
                   od_set (od_set ret ''fetched_date_human'' (JStr ''unknown''))
                     ''fetched_date_unix'' (JInt 0));
          ret = od_set ret ''units_info'' (JStr HELP_URL);
          ret = od_set ret ''data'' (JArr data)
      in JObj ret)"

section \<open>Notions used in the statements\<close>

text \<open>The lines the loop of \<open>parse_ascii\<close> does not skip: non-empty and not starting with \<open>#\<close>.\<close>

definition data_lines :: "string list \<Rightarrow> string list" where
  "data_lines src = filter (\<lambda>l. l \<noteq> [] \<and> \<not> startswith l ''#'') src"

text \<open>The column \<open>name\<close> of a line: the attribute \<open>x.name\<close> of its namedtuple.\<close>

definition column :: "string \<Rightarrow> string \<Rightarrow> error + string" where
  "column line name = bind_err (Properties (split_ws line)) (\<lambda>x. getattr x name)"

text \<open>
  The measurement-bearing fields: where each is stored in a row, and the column
  \<open>get_data\<close> is called with for it.
\<close>

definition measurements :: "(string list \<times> string) list" where
  "measurements = [
     ([''eccentricity''], ''ecc''),
     ([''semimajor_AU''], ''a_AU''),
     ([''stellar_properties'', ''temp_k''], ''Teff''),
     ([''stellar_properties'', ''metal_log''], ''FeH''),
     ([''stellar_properties'', ''mass_sol''], ''Msun''),
     ([''stellar_properties'', ''radius_sol''], ''Rsun''),
     ([''stellar_properties'', ''gravity_log_cgs''], ''cgs''),
     ([''stellar_properties'', ''density_sol''], ''rhosun''),
     ([''planetary_properties'', ''mass_jup''], ''Mjup''),
     ([''planetary_properties'', ''radius_jup''], ''Rjup''),
     ([''planetary_properties'', ''gravity''], ''ms2''),
     ([''planetary_properties'', ''density_jup''], ''rhoJup''),
     ([''planetary_properties'', ''temp_eq_k''], ''Teqk'')]"

text \<open>The two citation entries of the references group, each with its column.\<close>

definition citations :: "(string \<times> string) list" where
  "citations = [(''discovery'', ''d_ref''), (''recent'', ''r_ref'')]"

text \<open>
  A row given by its field values, written as an ASCII line: the fields with a
  whitespace separator between neighbours, the i-th of \<open>seps\<close> after the i-th field and
  one space where \<open>seps\<close> has run out. The same row as a CSV line is \<open>join '','' fs\<close>.
\<close>

fun ascii_line :: "string list \<Rightarrow> string list \<Rightarrow> string" where
  "ascii_line [] seps = []"
| "ascii_line [f] seps = f"
| "ascii_line (f # g # fs) seps =
     f @ (case seps of [] \<Rightarrow> '' '' | s # _ \<Rightarrow> s) @ ascii_line (g # fs) (tl seps)"

text \<open>
  A field value both formats can carry: not empty, without comma and without
  whitespace. A separator of the ASCII format: not empty, whitespace only.
\<close>

definition field_value :: "string \<Rightarrow> bool" where
  "field_value f = (f \<noteq> [] \<and> list_all (\<lambda>c. c \<noteq> CHR '','' \<and> \<not> isspace c) f)"

definition separator :: "string \<Rightarrow> bool" where
  "separator s = (s \<noteq> [] \<and> list_all isspace s)"

definition row_ok :: "string list \<times> string list \<Rightarrow> bool" where
  "row_ok row = (list_all field_value (fst row) \<and> list_all separator (snd row))"

section \<open>Concrete inputs\<close>

text \<open>
  An instance of the parameter \<open>flt\<close> on plain decimal numerals (an optional sign,
  digits, an optional point and digits): the number the numeral denotes, as a rational.
  Python's \<open>float\<close> accepts more (exponents, \<open>inf\<close>, \<open>nan\<close>, surrounding whitespace) and
  rounds to a double; the instance is only applied to numerals that a double holds exactly.
\<close>

definition is_digit :: "char \<Rightarrow> bool" where
  "is_digit c = (48 \<le> (of_char c :: nat) \<and> (of_char c :: nat) \<le> 57)"

definition digits_val :: "string \<Rightarrow> nat" where
  "digits_val s = foldl (\<lambda>a c. 10 * a + ((of_char c :: nat) - 48)) 0 s"

definition dec_float :: "string \<Rightarrow> rat option" where
  "dec_float s =
     (let (neg, body) =
            (case s of
               [] \<Rightarrow> (False, s)
             | c # r \<Rightarrow> if c = CHR ''-'' then (True, r)
                        else if c = CHR ''+'' then (False, r) else (False, s));
          ip = takeWhile (\<lambda>c. c \<noteq> CHR ''.'') body;
          fp = drop 1 (dropWhile (\<lambda>c. c \<noteq> CHR ''.'') body)
      in if ip @ fp \<noteq> [] \<and> list_all is_digit (ip @ fp)
         then Some ((if neg then - 1 else 1) * of_nat (digits_val (ip @ fp)) / 10 ^ length fp)
         else None)"

text \<open>Two rows of 43 fields, as field values and as lines, and a source holding both.\<close>

definition fields1 :: "string list" where
  "fields1 = [''HAT-P-1'',
     ''1.5'', ''0.5'', ''0.25'', ''1.5'', ''0.5'', ''0.25'', ''1.5'', ''0.5'', ''0.25'',
     ''1.5'', ''0.5'', ''0.25'', ''1.5'', ''0.5'', ''0.25'', ''1.5'', ''0.5'', ''0.25'',
     ''4.25'',
     ''1.5'', ''0.5'', ''0.25'', ''1.5'', ''0.5'', ''0.25'',
     ''1.5'', ''0.5'', ''0.25'', ''1.5'', ''0.5'', ''0.25'', ''1.5'', ''0.5'', ''0.25'',
     ''1.5'', ''0.5'', ''0.25'', ''1.5'', ''0.5'', ''0.25'',
     ''2004ApJ...600L..67B+2005'', ''arXiv:1401.2784'']"

definition fields2 :: "string list" where
  "fields2 = [''007'',
     ''2'', ''1'', ''1'', ''2'', ''1'', ''1'', ''2'', ''1'', ''1'',
     ''2'', ''1'', ''1'', ''2'', ''1'', ''1'', ''2'', ''1'', ''1'',
     ''3'',
     ''2'', ''1'', ''1'', ''2'', ''1'', ''1'',
     ''2'', ''1'', ''1'', ''2'', ''1'', ''1'', ''2'', ''1'', ''1'',
     ''2'', ''1'', ''1'', ''2'', ''1'', ''1'',
     ''arXiv:0705.0126'', ''2011MNRAS.417.2166S'']"

definition line1 :: string where
  "line1 = ''HAT-P-1 1.5 0.5 0.25 1.5 0.5 0.25 1.5 0.5 0.25 1.5 0.5 0.25 1.5 0.5 0.25 1.5 0.5 0.25 4.25 1.5 0.5 0.25 1.5 0.5 0.25 1.5 0.5 0.25 1.5 0.5 0.25 1.5 0.5 0.25 1.5 0.5 0.25 1.5 0.5 0.25 2004ApJ...600L..67B+2005 arXiv:1401.2784''"

definition line2 :: string where
  "line2 = ''007 2 1 1 2 1 1 2 1 1 2 1 1 2 1 1 2 1 1 3 2 1 1 2 1 1 2 1 1 2 1 1 2 1 1 2 1 1 2 1 1 arXiv:0705.0126 2011MNRAS.417.2166S''"

definition src1 :: "string list" where
  "src1 = [''# system Teff ...'', line1, [], line2]"

text \<open>The row of \<open>line1\<close> without and with error margins, and the rows of \<open>line2\<close>.\<close>

definition triple :: "rat \<Rightarrow> rat \<Rightarrow> rat \<Rightarrow> rat json" where
  "triple v u d = JObj [(''value'', JNum v), (''error_plus'', JNum u), (''error_minus'', JNum d)]"

definition row_of :: "string \<Rightarrow> rat json \<Rightarrow> rat json \<Rightarrow> string \<Rightarrow> string \<Rightarrow> rat json" where
  "row_of system period m discovery recent = JObj [
     (''system'', JStr system), (''period'', period),
     (''eccentricity'', m), (''semimajor_AU'', m),
     (''stellar_properties'', JObj [
        (''temp_k'', m), (''metal_log'', m), (''mass_sol'', m),
        (''radius_sol'', m), (''gravity_log_cgs'', m), (''density_sol'', m)]),
     (''planetary_properties'', JObj [
        (''mass_jup'', m), (''radius_jup'', m), (''gravity'', m),
        (''density_jup'', m), (''temp_eq_k'', m)]),
     (''references'', JObj [
        (''human_url'',
         JStr (''https://www.astro.keele.ac.uk/jkt/tepcat/planets/'' @ system @ ''.html'')),
        (''discovery'', JStr discovery),
        (''recent'', JStr recent)])]"

definition bare1 :: "rat json" where
  "bare1 = row_of ''HAT-P-1'' (JNum (17 / 4)) (JNum (3 / 2))
     ''http://adsabs.harvard.edu/abs/2004ApJ...600L..67B&2005''
     ''https://arxiv.org/abs/arXiv:1401.2784''"

definition full1 :: "rat json" where
  "full1 = row_of ''HAT-P-1'' (JNum (17 / 4)) (triple (3 / 2) (1 / 2) (1 / 4))
     ''http://adsabs.harvard.edu/abs/2004ApJ...600L..67B&2005''
     ''https://arxiv.org/abs/arXiv:1401.2784''"

definition bare2 :: "rat json" where
  "bare2 = row_of ''007'' (JNum 3) (JNum 2)
     ''https://arxiv.org/abs/arXiv:0705.0126''
     ''http://adsabs.harvard.edu/abs/2011MNRAS.417.2166S''"

definition full2 :: "rat json" where
  "full2 = row_of ''007'' (JNum 3) (triple 2 1 1)
     ''https://arxiv.org/abs/arXiv:0705.0126''
     ''http://adsabs.harvard.edu/abs/2011MNRAS.417.2166S''"

text \<open>
  Four rows as field values with their ASCII separators: the row of \<open>line1\<close> with two
  spaces, a tab and a space with a tab as its first separators, a comment, an empty row
  and the row of \<open>line2\<close>. \<open>csv_header\<close> is a header line of a CSV source.
\<close>

definition rows1 :: "(string list \<times> string list) list" where
  "rows1 = [(fields1, [''  '', [CHR 0x09], [CHR '' '', CHR 0x09]]),
            ([''#'', ''note''], []),
            ([], []),
            (fields2, [])]"

definition csv_header :: string where
  "csv_header = ''System,Teff,err,err''"

section \<open>String facts\<close>

lemma replace_ne_char:
  "replace_ne [a] [b] s = map (\<lambda>c. if c = a then b else c) s"
  by (induction s) (simp_all add: startswith_def)

lemma replace_char:
  "replace s [a] [b] = map (\<lambda>c. if c = a then b else c) s"
  by (simp add: replace_def replace_ne_char)

lemma format_str_no_args: "format_str t [] = t"
  by (induction t) simp_all

lemma format_HUMAN_URL:
  "format_str HUMAN_URL [s] = ''https://www.astro.keele.ac.uk/jkt/tepcat/planets/'' @ s @ ''.html''"
  by (simp add: HUMAN_URL_def format_str_no_args)

lemma format_ARXIV_URL:
  "format_str ARXIV_URL [s] = ''https://arxiv.org/abs/'' @ s"
  by (simp add: ARXIV_URL_def format_str_no_args)

lemma format_FALLBACK_URL:
  "format_str FALLBACK_URL [s] = ''http://adsabs.harvard.edu/abs/'' @ s"
  by (simp add: FALLBACK_URL_def format_str_no_args)

lemma format_sibling:
  "format_str ''{}_{}'' [p, e] = p @ ''_'' @ e"
  by (simp add: format_str_no_args)

lemma ref_url_arxiv:
  "startswith code ''arXiv'' \<Longrightarrow> ref_url code = ''https://arxiv.org/abs/'' @ code"
  by (simp add: ref_url_def format_ARXIV_URL)

lemma ref_url_fallback:
  "\<not> startswith code ''arXiv'' \<Longrightarrow>
   ref_url code =
     ''http://adsabs.harvard.edu/abs/'' @ map (\<lambda>c. if c = CHR ''+'' then CHR ''&'' else c) code"
  by (simp add: ref_url_def format_FALLBACK_URL replace_char)

lemma skipped_iff: "skipped l \<longleftrightarrow> \<not> (l \<noteq> [] \<and> \<not> startswith l ''#'')"
  by (auto simp: skipped_def)

section \<open>Errors\<close>

lemma bind_err_Inr: "bind_err m f = Inr r \<longleftrightarrow> (\<exists>v. m = Inr v \<and> f v = Inr r)"
  by (cases m) (simp_all add: bind_err_def)

lemma bind_err_Inl [simp]: "bind_err (Inl e) f = Inl e"
  by (simp add: bind_err_def)

lemma bind_err_Inr_eq [simp]: "bind_err (Inr v) f = f v"
  by (simp add: bind_err_def)

lemma float_Inr: "float flt s = Inr v \<longleftrightarrow> flt s = Some v"
  by (simp add: float_def split: option.splits)

section \<open>The schema\<close>

lemma length_props: "length props = 43"
  by (simp add: props_def)

lemma Properties_Inr: "Properties args = Inr x \<longleftrightarrow> length args = 43 \<and> x = zip props args"
  by (auto simp: Properties_def length_props)

lemma Properties_wrong_count: "length args \<noteq> 43 \<Longrightarrow> Properties args = Inl TypeError"
  by (simp add: Properties_def length_props)

lemma column_Properties:
  "Properties (split_ws l) = Inr x \<Longrightarrow> column l name = getattr x name"
  by (simp add: column_def)

section \<open>One row\<close>

lemma get_data_bare:
  "get_data flt True x p = Inr j \<longleftrightarrow>
     (\<exists>s v. getattr x p = Inr s \<and> flt s = Some v \<and> j = JNum v)"
  by (auto simp: get_data_def bind_err_Inr float_Inr)

lemma get_data_full:
  "get_data flt False x p = Inr j \<longleftrightarrow>
     (\<exists>s v su vu sd vd.
        getattr x p = Inr s \<and> flt s = Some v \<and>
        getattr x (p @ ''_erru'') = Inr su \<and> flt su = Some vu \<and>
        getattr x (p @ ''_errd'') = Inr sd \<and> flt sd = Some vd \<and>
        j = JObj [(''value'', JNum v), (''error_plus'', JNum vu), (''error_minus'', JNum vd)])"
  by (auto simp: get_data_def bind_err_Inr float_Inr format_sibling)

lemma parse_line_Inr:
  assumes "parse_line flt skip l = Inr r"
  shows "\<exists>x sys porb period ecc a teff feh msun rsun cgs rhosun mjup rjup ms2 rhojup teqk
           dref rref.
     Properties (split_ws l) = Inr x \<and>
     getattr x ''system'' = Inr sys \<and>
     getattr x ''Porb'' = Inr porb \<and> float flt porb = Inr period \<and>
     get_data flt skip x ''ecc'' = Inr ecc \<and>
     get_data flt skip x ''a_AU'' = Inr a \<and>
     get_data flt skip x ''Teff'' = Inr teff \<and>
     get_data flt skip x ''FeH'' = Inr feh \<and>
     get_data flt skip x ''Msun'' = Inr msun \<and>
     get_data flt skip x ''Rsun'' = Inr rsun \<and>
     get_data flt skip x ''cgs'' = Inr cgs \<and>
     get_data flt skip x ''rhosun'' = Inr rhosun \<and>
     get_data flt skip x ''Mjup'' = Inr mjup \<and>
     get_data flt skip x ''Rjup'' = Inr rjup \<and>
     get_data flt skip x ''ms2'' = Inr ms2 \<and>
     get_data flt skip x ''rhoJup'' = Inr rhojup \<and>
     get_data flt skip x ''Teqk'' = Inr teqk \<and>
     getattr x ''d_ref'' = Inr dref \<and>
     getattr x ''r_ref'' = Inr rref \<and>
     r = JObj [
       (''system'', JStr sys), (''period'', JNum period),
       (''eccentricity'', ecc), (''semimajor_AU'', a),
       (''stellar_properties'', JObj [
          (''temp_k'', teff), (''metal_log'', feh), (''mass_sol'', msun),
          (''radius_sol'', rsun), (''gravity_log_cgs'', cgs), (''density_sol'', rhosun)]),
       (''planetary_properties'', JObj [
          (''mass_jup'', mjup), (''radius_jup'', rjup), (''gravity'', ms2),
          (''density_jup'', rhojup), (''temp_eq_k'', teqk)]),
       (''references'', JObj [
          (''human_url'', JStr (format_str HUMAN_URL [sys])),
          (''discovery'', JStr (ref_url dref)),
          (''recent'', JStr (ref_url rref))])]"
  using assms unfolding parse_line_def bind_err_Inr Let_def
  by (elim exE conjE) simp

lemma parse_line_wrong_count:
  "length (split_ws l) \<noteq> 43 \<Longrightarrow> parse_line flt skip l = Inl TypeError"
  by (simp add: parse_line_def Properties_wrong_count)

lemma parse_line_cong:
  "split_ws a = split_ws b \<Longrightarrow> parse_line flt skip a = parse_line flt skip b"
  by (simp add: parse_line_def)

section \<open>The loop\<close>

lemma parse_loop_Inr:
  "parse_loop flt skip src ret = Inr rs \<Longrightarrow>
   map Inr rs = map Inr ret @ map (parse_line flt skip) (data_lines src)"
proof (induction src arbitrary: ret)
  case Nil
  then show ?case by (simp add: data_lines_def)
next
  case (Cons l src)
  show ?case
  proof (cases "skipped l")
    case True
    with Cons show ?thesis by (simp add: data_lines_def skipped_iff)
  next
    case False
    with Cons.prems obtain row where row: "parse_line flt skip l = Inr row"
      and rest: "parse_loop flt skip src (ret @ [row]) = Inr rs"
      by (auto simp: bind_err_Inr)
    from Cons.IH [OF rest] row False show ?thesis
      by (simp add: data_lines_def skipped_iff)
  qed
qed

lemma parse_loop_Inl:
  "l \<in> set src \<Longrightarrow> \<not> skipped l \<Longrightarrow> parse_line flt skip l = Inl e \<Longrightarrow>
   \<exists>e'. parse_loop flt skip src ret = Inl e'"
proof (induction src arbitrary: ret)
  case Nil
  then show ?case by simp
next
  case (Cons a src)
  show ?case
  proof (cases "skipped a")
    case True
    with Cons show ?thesis by auto
  next
    case False
    show ?thesis
    proof (cases "parse_line flt skip a")
      case (Inl e0)
      with False show ?thesis by simp
    next
      case (Inr row)
      with Cons.prems have "l \<in> set src" by auto
      from Cons.IH [OF this Cons.prems(2,3)] False Inr show ?thesis by simp
    qed
  qed
qed

lemma parse_ascii_rows:
  assumes "parse_ascii flt src skip = Inr rs"
  shows "map Inr rs = map (parse_line flt skip) (data_lines src)"
  using parse_loop_Inr [of flt skip src "[]" rs] assms by (simp add: parse_ascii_def)

lemma parse_ascii_nth:
  assumes "parse_ascii flt src skip = Inr rs" and "i < length (data_lines src)"
  shows "parse_line flt skip (data_lines src ! i) = Inr (rs ! i)"
proof -
  have eq: "map Inr rs = map (parse_line flt skip) (data_lines src)"
    using assms(1) by (rule parse_ascii_rows)
  then have len: "length rs = length (data_lines src)"
    by (metis length_map)
  have "map Inr rs ! i = map (parse_line flt skip) (data_lines src) ! i"
    using eq by simp
  with assms(2) len show ?thesis by simp
qed

lemma distinct_props: "distinct props"
  by (simp add: props_def)

lemma column_nth:
  assumes "length (split_ws l) = 43" and "i < 43"
  shows "column l (props ! i) = Inr (split_ws l ! i)"
proof -
  have "map_of (zip props (split_ws l)) (props ! i) = Some (split_ws l ! i)"
    using assms distinct_props by (intro map_of_zip_nth) (simp_all add: length_props)
  then show ?thesis
    using assms(1) by (simp add: column_def Properties_def length_props getattr_def)
qed

lemma column_system: "length (split_ws l) = 43 \<Longrightarrow> column l ''system'' = Inr (split_ws l ! 0)"
  using column_nth [of l 0] by (simp add: props_def)

lemma column_Porb: "length (split_ws l) = 43 \<Longrightarrow> column l ''Porb'' = Inr (split_ws l ! 19)"
  using column_nth [of l 19] by (simp add: props_def)

section \<open>The concrete inputs, evaluated\<close>

lemma split_line1: "split_ws line1 = fields1"
  unfolding line1_def fields1_def split_ws_def by (simp add: isspace_def)

lemma split_line2: "split_ws line2 = fields2"
  unfolding line2_def fields2_def split_ws_def by (simp add: isspace_def)

lemma dec_float_values:
  "dec_float ''1.5'' = Some (3 / 2)" "dec_float ''0.5'' = Some (1 / 2)"
  "dec_float ''0.25'' = Some (1 / 4)" "dec_float ''4.25'' = Some (17 / 4)"
  "dec_float ''1'' = Some 1" "dec_float ''2'' = Some 2" "dec_float ''3'' = Some 3"
  by (simp_all add: dec_float_def is_digit_def digits_val_def)

lemmas eval_row =
  parse_line_def Properties_def props_def getattr_def float_def dec_float_values
  get_data_def ref_url_def startswith_def format_HUMAN_URL format_ARXIV_URL format_FALLBACK_URL
  replace_char row_of_def triple_def

lemma parse_line1_bare: "parse_line dec_float True line1 = Inr bare1"
  unfolding parse_line_def split_line1 fields1_def bare1_def by (simp add: eval_row)

lemma parse_line1_full: "parse_line dec_float False line1 = Inr full1"
  unfolding parse_line_def split_line1 fields1_def full1_def by (simp add: eval_row)

lemma parse_line2_bare: "parse_line dec_float True line2 = Inr bare2"
  unfolding parse_line_def split_line2 fields2_def bare2_def by (simp add: eval_row)

lemma parse_line2_full: "parse_line dec_float False line2 = Inr full2"
  unfolding parse_line_def split_line2 fields2_def full2_def by (simp add: eval_row)

lemma skipped_lines: "\<not> skipped line1" "\<not> skipped line2" "skipped ''# system Teff ...''" "skipped []"
  by (simp_all add: skipped_def startswith_def line1_def line2_def)

lemma data_lines_src1: "data_lines src1 = [line1, line2]"
  using skipped_lines by (simp add: data_lines_def src1_def skipped_iff)

lemma parse_src1_bare: "parse_ascii dec_float src1 True = Inr [bare1, bare2]"
  by (simp add: parse_ascii_def src1_def skipped_lines parse_line1_bare parse_line2_bare)

lemma parse_src1_full: "parse_ascii dec_float src1 False = Inr [full1, full2]"
  by (simp add: parse_ascii_def src1_def skipped_lines parse_line1_full parse_line2_full)

lemma columns_line1:
  "column line1 ''system'' = Inr ''HAT-P-1''"
  "column line1 ''Porb'' = Inr ''4.25''"
  "column line1 ''Teff'' = Inr ''1.5''"
  "column line1 ''Teff_erru'' = Inr ''0.5''"
  "column line1 ''Teff_errd'' = Inr ''0.25''"
  "column line1 ''d_ref'' = Inr ''2004ApJ...600L..67B+2005''"
  "column line1 ''r_ref'' = Inr ''arXiv:1401.2784''"
  unfolding column_def split_line1 fields1_def
  by (simp_all add: Properties_def props_def getattr_def)

lemma columns_line2:
  "column line2 ''system'' = Inr ''007''"
  "column line2 ''Porb'' = Inr ''3''"
  unfolding column_def split_line2 fields2_def
  by (simp_all add: Properties_def props_def getattr_def)

section \<open>The output envelope\<close>

text \<open>
  C1 (as amended). For every record sequence and every clock reading, the envelope built
  with stamping disabled holds the sentinel pair \<open>"unknown"\<close> and \<open>0\<close> under the keys
  \<open>fetched_date_human\<close> and \<open>fetched_date_unix\<close>, followed by \<open>units_info\<close> and \<open>data\<close>;
  nothing of the clock reading is in it, and the keys \<open>fetched_data_human_utc\<close> and
  \<open>fetched_data_unix_utc\<close> of the stamped envelope are absent.
\<close>

theorem build_output_unstamped:
  "build_output now data False =
     JObj [(''fetched_date_human'', JStr ''unknown''), (''fetched_date_unix'', JInt 0),
           (''units_info'', JStr HELP_URL), (''data'', JArr data)]
   \<and> get_key (build_output now data False) ''fetched_date_human'' = Some (JStr ''unknown'')
   \<and> get_key (build_output now data False) ''fetched_date_unix'' = Some (JInt 0)
   \<and> get_key (build_output now data False) ''fetched_data_human_utc'' = None
   \<and> get_key (build_output now data False) ''fetched_data_unix_utc'' = None"
  by (simp add: build_output_def)

text \<open>
  C1 as stated fails: in the envelope built with stamping disabled from the empty record
  sequence, the keys \<open>fetched_data_human_utc\<close> and \<open>fetched_data_unix_utc\<close> do not hold
  the sentinel pair.
\<close>

theorem build_output_unstamped_counterexample:
  "\<not> (get_key (build_output \<lparr>human_utc = ''2026-Nov-03 17:00:00'', unix_utc = 1793725200\<rparr>
              ([] :: rat json list) False) ''fetched_data_human_utc'' = Some (JStr ''unknown'')
      \<and> get_key (build_output \<lparr>human_utc = ''2026-Nov-03 17:00:00'', unix_utc = 1793725200\<rparr>
              ([] :: rat json list) False) ''fetched_data_unix_utc'' = Some (JInt 0))"
  by (simp add: build_output_def)

section \<open>Rows of a successful parse\<close>

lemma parse_ascii_length:
  "parse_ascii flt src skip = Inr rs \<Longrightarrow> length rs = length (data_lines src)"
  by (metis parse_ascii_rows length_map)

text \<open>
  C9. When \<open>parse_ascii\<close> succeeds, it returns one record per line that is non-empty and
  does not start with \<open>#\<close>, in the order of these lines: the i-th record is the row of the
  i-th such line.
\<close>

theorem parse_ascii_one_record_per_data_line:
  assumes "parse_ascii flt src skip = Inr rs"
  shows "length rs = length (filter (\<lambda>l. l \<noteq> [] \<and> \<not> startswith l ''#'') src)
       \<and> map Inr rs = map (parse_line flt skip) (filter (\<lambda>l. l \<noteq> [] \<and> \<not> startswith l ''#'') src)"
  using parse_ascii_rows [OF assms] parse_ascii_length [OF assms]
  by (simp add: data_lines_def)

theorem parse_ascii_one_record_per_data_line_witness:
  "parse_ascii dec_float src1 True = Inr [bare1, bare2]
   \<and> filter (\<lambda>l. l \<noteq> [] \<and> \<not> startswith l ''#'') src1 = [line1, line2]
   \<and> length [bare1, bare2] = length (filter (\<lambda>l. l \<noteq> [] \<and> \<not> startswith l ''#'') src1)
   \<and> map Inr [bare1, bare2] =
       map (parse_line dec_float True) (filter (\<lambda>l. l \<noteq> [] \<and> \<not> startswith l ''#'') src1)"
  using parse_ascii_one_record_per_data_line [OF parse_src1_bare] parse_src1_bare data_lines_src1
  by (simp add: data_lines_def)

text \<open>
  C3 (as amended). The schema has 43 fields. A line that is non-empty, does not start
  with \<open>#\<close> and does not split into 43 fields raises TypeError in the loop body, and a
  parse run over a source holding such a line ends with an error: it returns no records.
\<close>

theorem field_count_mismatch_is_fatal:
  assumes "l \<in> set src" and "l \<noteq> []" and "\<not> startswith l ''#''"
    and "length (split_ws l) \<noteq> 43"
  shows "length props = 43 \<and> parse_line flt skip l = Inl TypeError
       \<and> (\<exists>e. parse_ascii flt src skip = Inl e)"
proof -
  have row: "parse_line flt skip l = Inl TypeError"
    using assms(4) by (rule parse_line_wrong_count)
  have "\<not> skipped l"
    using assms(2,3) by (simp add: skipped_iff)
  from parse_loop_Inl [OF assms(1) this row] row show ?thesis
    by (simp add: parse_ascii_def length_props)
qed

theorem field_count_mismatch_is_fatal_witness:
  "''a b c'' \<in> set [line1, ''a b c''] \<and> ''a b c'' \<noteq> [] \<and> \<not> startswith ''a b c'' ''#''
   \<and> length (split_ws ''a b c'') \<noteq> 43
   \<and> length props = 43 \<and> parse_line dec_float True ''a b c'' = Inl TypeError
   \<and> (\<exists>e. parse_ascii dec_float [line1, ''a b c''] True = Inl e)"
proof -
  have h: "''a b c'' \<in> set [line1, ''a b c'']" "''a b c'' \<noteq> []" "\<not> startswith ''a b c'' ''#''"
    "length (split_ws ''a b c'') \<noteq> 43"
    by (simp_all add: startswith_def split_ws_def isspace_def)
  from field_count_mismatch_is_fatal [OF h, of dec_float True] h show ?thesis
    by blast
qed

text \<open>
  C3 as stated fails: \<open>line1\<close> is non-empty, does not start with \<open>#\<close> and splits into 43
  fields, not 45, and the parse run over it returns its record.
\<close>

theorem field_count_45_counterexample:
  "line1 \<in> set [line1] \<and> line1 \<noteq> [] \<and> \<not> startswith line1 ''#''
   \<and> length (split_ws line1) \<noteq> 45
   \<and> parse_ascii dec_float [line1] True = Inr [bare1]"
proof -
  have "length (split_ws line1) = 43"
    by (simp add: split_line1 fields1_def)
  moreover have "parse_ascii dec_float [line1] True = Inr [bare1]"
    by (simp add: parse_ascii_def skipped_lines parse_line1_bare)
  ultimately show ?thesis
    using skipped_lines(1) by (simp add: skipped_iff)
qed

text \<open>
  C8. In every record of a successful parse, in both modes, \<open>period\<close> is a bare float: the
  float of the \<open>Porb\<close> column of the record's line, which is its 20th field.
\<close>

theorem period_is_bare_float:
  assumes "parse_ascii flt src skip = Inr rs" and "i < length rs"
  shows "\<exists>s v. column (data_lines src ! i) ''Porb'' = Inr s \<and> s = split_ws (data_lines src ! i) ! 19
             \<and> flt s = Some v \<and> get_key (rs ! i) ''period'' = Some (JNum v)"
proof -
  have i: "i < length (data_lines src)"
    using assms parse_ascii_length by metis
  from parse_line_Inr [OF parse_ascii_nth [OF assms(1) i]]
  obtain x porb period where x: "Properties (split_ws (data_lines src ! i)) = Inr x"
    and porb: "getattr x ''Porb'' = Inr porb" "float flt porb = Inr period"
    and key: "get_key (rs ! i) ''period'' = Some (JNum period)"
    by auto
  have "length (split_ws (data_lines src ! i)) = 43"
    using x by (simp add: Properties_Inr)
  from column_Porb [OF this] column_Properties [OF x, of "''Porb''"] porb key
  show ?thesis
    by (simp add: float_Inr)
qed

theorem period_is_bare_float_witness:
  "parse_ascii dec_float src1 False = Inr [full1, full2] \<and> (0::nat) < length [full1, full2]
   \<and> (\<exists>s v. column (data_lines src1 ! 0) ''Porb'' = Inr s \<and> s = split_ws (data_lines src1 ! 0) ! 19
          \<and> dec_float s = Some v \<and> get_key ([full1, full2] ! 0) ''period'' = Some (JNum v))"
  using period_is_bare_float [OF parse_src1_full, of 0] parse_src1_full by simp

text \<open>
  C10. In every record of a successful parse, \<open>system\<close> is the first field of the line, kept
  as a string, and \<open>human_url\<close> of the references group is
  \<open>https://www.astro.keele.ac.uk/jkt/tepcat/planets/<system>.html\<close>.
\<close>

theorem human_url_of_system:
  assumes "parse_ascii flt src skip = Inr rs" and "i < length rs"
  shows "\<exists>sys. column (data_lines src ! i) ''system'' = Inr sys
           \<and> sys = split_ws (data_lines src ! i) ! 0
           \<and> get_key (rs ! i) ''system'' = Some (JStr sys)
           \<and> get_path (rs ! i) [''references'', ''human_url''] =
               Some (JStr (''https://www.astro.keele.ac.uk/jkt/tepcat/planets/'' @ sys @ ''.html''))"
proof -
  have i: "i < length (data_lines src)"
    using assms parse_ascii_length by metis
  from parse_line_Inr [OF parse_ascii_nth [OF assms(1) i]]
  obtain x sys where x: "Properties (split_ws (data_lines src ! i)) = Inr x"
    and sys: "getattr x ''system'' = Inr sys"
    and key: "get_key (rs ! i) ''system'' = Some (JStr sys)"
    and url: "get_path (rs ! i) [''references'', ''human_url''] =
                Some (JStr (format_str HUMAN_URL [sys]))"
    by auto
  have "length (split_ws (data_lines src ! i)) = 43"
    using x by (simp add: Properties_Inr)
  from column_system [OF this] column_Properties [OF x, of "''system''"] sys key url
  show ?thesis
    by (simp add: format_HUMAN_URL)
qed

theorem human_url_of_system_witness:
  "parse_ascii dec_float src1 True = Inr [bare1, bare2] \<and> (1::nat) < length [bare1, bare2]
   \<and> column (data_lines src1 ! 1) ''system'' = Inr ''007''
   \<and> get_key ([bare1, bare2] ! 1) ''system'' = Some (JStr ''007'')
   \<and> get_path ([bare1, bare2] ! 1) [''references'', ''human_url''] =
       Some (JStr ''https://www.astro.keele.ac.uk/jkt/tepcat/planets/007.html'')"
  using human_url_of_system [OF parse_src1_bare, of 1] parse_src1_bare
  by (simp add: data_lines_src1 columns_line2)

section \<open>Citation URLs\<close>

lemma citation_entry:
  assumes "parse_line flt skip l = Inr r" and "(key, col) \<in> set citations"
  shows "\<exists>code. column l col = Inr code
           \<and> get_path r [''references'', key] = Some (JStr (ref_url code))"
proof -
  from parse_line_Inr [OF assms(1)]
  obtain x dref rref where x: "Properties (split_ws l) = Inr x"
    and d: "getattr x ''d_ref'' = Inr dref" and r: "getattr x ''r_ref'' = Inr rref"
    and urls: "get_path r [''references'', ''discovery''] = Some (JStr (ref_url dref))"
      "get_path r [''references'', ''recent''] = Some (JStr (ref_url rref))"
    by auto
  from assms(2) consider "key = ''discovery''" "col = ''d_ref''" | "key = ''recent''" "col = ''r_ref''"
    by (auto simp: citations_def)
  then show ?thesis
  proof cases
    case 1
    with d urls(1) column_Properties [OF x, of "''d_ref''"] show ?thesis by simp
  next
    case 2
    with r urls(2) column_Properties [OF x, of "''r_ref''"] show ?thesis by simp
  qed
qed

text \<open>
  C6. In every record of a successful parse, a citation entry (\<open>discovery\<close> from column
  \<open>d_ref\<close>, \<open>recent\<close> from column \<open>r_ref\<close>) whose reference code starts with \<open>arXiv\<close> is
  exactly \<open>https://arxiv.org/abs/\<close> followed by the code as it is.
\<close>

theorem arxiv_code_url:
  assumes "parse_ascii flt src skip = Inr rs" and "i < length rs"
    and "(key, col) \<in> set citations"
    and "column (data_lines src ! i) col = Inr code"
    and "startswith code ''arXiv''"
  shows "get_path (rs ! i) [''references'', key] = Some (JStr (''https://arxiv.org/abs/'' @ code))"
proof -
  have i: "i < length (data_lines src)"
    using assms(1,2) parse_ascii_length by metis
  from citation_entry [OF parse_ascii_nth [OF assms(1) i] assms(3)] assms(4,5)
  show ?thesis
    by (auto simp: ref_url_arxiv)
qed

theorem arxiv_code_url_witness:
  "parse_ascii dec_float src1 True = Inr [bare1, bare2] \<and> (0::nat) < length [bare1, bare2]
   \<and> (''recent'', ''r_ref'') \<in> set citations
   \<and> column (data_lines src1 ! 0) ''r_ref'' = Inr ''arXiv:1401.2784''
   \<and> startswith ''arXiv:1401.2784'' ''arXiv''
   \<and> get_path ([bare1, bare2] ! 0) [''references'', ''recent''] =
       Some (JStr ''https://arxiv.org/abs/arXiv:1401.2784'')"
proof -
  have h: "(0::nat) < length [bare1, bare2]" "(''recent'', ''r_ref'') \<in> set citations"
    "column (data_lines src1 ! 0) ''r_ref'' = Inr ''arXiv:1401.2784''"
    "startswith ''arXiv:1401.2784'' ''arXiv''"
    by (simp_all add: citations_def data_lines_src1 columns_line1 startswith_def)
  from arxiv_code_url [OF parse_src1_bare h] parse_src1_bare h show ?thesis
    by simp
qed

text \<open>
  C5. In every record of a successful parse, a citation entry whose reference code does
  not start with \<open>arXiv\<close> is \<open>http://adsabs.harvard.edu/abs/\<close> followed by the code with
  every \<open>+\<close> replaced by \<open>&\<close>; no \<open>+\<close> is left in the URL.
\<close>

theorem fallback_code_url:
  assumes "parse_ascii flt src skip = Inr rs" and "i < length rs"
    and "(key, col) \<in> set citations"
    and "column (data_lines src ! i) col = Inr code"
    and "\<not> startswith code ''arXiv''"
  shows "\<exists>url. get_path (rs ! i) [''references'', key] = Some (JStr url)
           \<and> url = ''http://adsabs.harvard.edu/abs/''
                   @ map (\<lambda>c. if c = CHR ''+'' then CHR ''&'' else c) code
           \<and> CHR ''+'' \<notin> set url"
proof -
  have i: "i < length (data_lines src)"
    using assms(1,2) parse_ascii_length by metis
  from citation_entry [OF parse_ascii_nth [OF assms(1) i] assms(3)] assms(4,5)
  show ?thesis
    by (auto simp: ref_url_fallback)
qed

theorem fallback_code_url_witness:
  "parse_ascii dec_float src1 True = Inr [bare1, bare2] \<and> (0::nat) < length [bare1, bare2]
   \<and> (''discovery'', ''d_ref'') \<in> set citations
   \<and> column (data_lines src1 ! 0) ''d_ref'' = Inr ''2004ApJ...600L..67B+2005''
   \<and> \<not> startswith ''2004ApJ...600L..67B+2005'' ''arXiv''
   \<and> get_path ([bare1, bare2] ! 0) [''references'', ''discovery''] =
       Some (JStr ''http://adsabs.harvard.edu/abs/2004ApJ...600L..67B&2005'')"
proof -
  have h: "(0::nat) < length [bare1, bare2]" "(''discovery'', ''d_ref'') \<in> set citations"
    "column (data_lines src1 ! 0) ''d_ref'' = Inr ''2004ApJ...600L..67B+2005''"
    "\<not> startswith ''2004ApJ...600L..67B+2005'' ''arXiv''"
    by (simp_all add: citations_def data_lines_src1 columns_line1 startswith_def)
  from fallback_code_url [OF parse_src1_bare h] parse_src1_bare h show ?thesis
    by simp
qed

section \<open>Measurements\<close>

lemma measurement_entry:
  assumes "parse_line flt skip l = Inr r" and "(path, param) \<in> set measurements"
  shows "\<exists>x j. Properties (split_ws l) = Inr x \<and> get_data flt skip x param = Inr j
             \<and> get_path r path = Some j"
proof -
  from parse_line_Inr [OF assms(1)]
  obtain x ecc a teff feh msun rsun cgs rhosun mjup rjup ms2 rhojup teqk
    where x: "Properties (split_ws l) = Inr x"
      and g: "get_data flt skip x ''ecc'' = Inr ecc"
        "get_data flt skip x ''a_AU'' = Inr a"
        "get_data flt skip x ''Teff'' = Inr teff"
        "get_data flt skip x ''FeH'' = Inr feh"
        "get_data flt skip x ''Msun'' = Inr msun"
        "get_data flt skip x ''Rsun'' = Inr rsun"
        "get_data flt skip x ''cgs'' = Inr cgs"
        "get_data flt skip x ''rhosun'' = Inr rhosun"
        "get_data flt skip x ''Mjup'' = Inr mjup"
        "get_data flt skip x ''Rjup'' = Inr rjup"
        "get_data flt skip x ''ms2'' = Inr ms2"
        "get_data flt skip x ''rhoJup'' = Inr rhojup"
        "get_data flt skip x ''Teqk'' = Inr teqk"
      and p: "get_path r [''eccentricity''] = Some ecc"
        "get_path r [''semimajor_AU''] = Some a"
        "get_path r [''stellar_properties'', ''temp_k''] = Some teff"
        "get_path r [''stellar_properties'', ''metal_log''] = Some feh"
        "get_path r [''stellar_properties'', ''mass_sol''] = Some msun"
        "get_path r [''stellar_properties'', ''radius_sol''] = Some rsun"
        "get_path r [''stellar_properties'', ''gravity_log_cgs''] = Some cgs"
        "get_path r [''stellar_properties'', ''density_sol''] = Some rhosun"
        "get_path r [''planetary_properties'', ''mass_jup''] = Some mjup"
        "get_path r [''planetary_properties'', ''radius_jup''] = Some rjup"
        "get_path r [''planetary_properties'', ''gravity''] = Some ms2"
        "get_path r [''planetary_properties'', ''density_jup''] = Some rhojup"
        "get_path r [''planetary_properties'', ''temp_eq_k''] = Some teqk"
    by auto
  from assms(2) have "(path, param) \<in> set measurements" .
  then show ?thesis
    unfolding measurements_def set_simps insert_iff empty_iff prod.inject
    using x g p by (elim disjE conjE FalseE) simp_all
qed

text \<open>
  C4. For every data line of a source and every measurement-bearing field: when the
  parse without error margins succeeds, the field of the line's record is the bare float
  of the field's column; when the parse with error margins succeeds, it is the object
  with the three keys \<open>value\<close>, \<open>error_plus\<close>, \<open>error_minus\<close>, in this order, holding the
  floats of the column and of its sibling columns \<open><field>_erru\<close> and \<open><field>_errd\<close>.
\<close>

theorem measurement_shape_by_mode:
  assumes "i < length (data_lines src)" and "(path, param) \<in> set measurements"
  shows "(parse_ascii flt src True = Inr bare \<longrightarrow>
            (\<exists>s v. column (data_lines src ! i) param = Inr s \<and> flt s = Some v
                 \<and> get_path (bare ! i) path = Some (JNum v)))
       \<and> (parse_ascii flt src False = Inr full \<longrightarrow>
            (\<exists>s v su vu sd vd.
               column (data_lines src ! i) param = Inr s \<and> flt s = Some v
             \<and> column (data_lines src ! i) (param @ ''_erru'') = Inr su \<and> flt su = Some vu
             \<and> column (data_lines src ! i) (param @ ''_errd'') = Inr sd \<and> flt sd = Some vd
             \<and> get_path (full ! i) path =
                 Some (JObj [(''value'', JNum v), (''error_plus'', JNum vu),
                             (''error_minus'', JNum vd)])))"
proof (intro conjI impI)
  assume ok: "parse_ascii flt src True = Inr bare"
  from measurement_entry [OF parse_ascii_nth [OF ok assms(1)] assms(2)]
  obtain x j where x: "Properties (split_ws (data_lines src ! i)) = Inr x"
    and j: "get_data flt True x param = Inr j" "get_path (bare ! i) path = Some j"
    by blast
  from j(1) obtain s v where "getattr x param = Inr s" "flt s = Some v" "j = JNum v"
    unfolding get_data_bare by blast
  with j(2) column_Properties [OF x]
  show "\<exists>s v. column (data_lines src ! i) param = Inr s \<and> flt s = Some v
             \<and> get_path (bare ! i) path = Some (JNum v)"
    by simp
next
  assume ok: "parse_ascii flt src False = Inr full"
  from measurement_entry [OF parse_ascii_nth [OF ok assms(1)] assms(2)]
  obtain x j where x: "Properties (split_ws (data_lines src ! i)) = Inr x"
    and j: "get_data flt False x param = Inr j" "get_path (full ! i) path = Some j"
    by blast
  from j(1) obtain s v su vu sd vd where
    "getattr x param = Inr s" "flt s = Some v"
    "getattr x (param @ ''_erru'') = Inr su" "flt su = Some vu"
    "getattr x (param @ ''_errd'') = Inr sd" "flt sd = Some vd"
    "j = JObj [(''value'', JNum v), (''error_plus'', JNum vu), (''error_minus'', JNum vd)]"
    unfolding get_data_full by blast
  with j(2) column_Properties [OF x]
  show "\<exists>s v su vu sd vd.
               column (data_lines src ! i) param = Inr s \<and> flt s = Some v
             \<and> column (data_lines src ! i) (param @ ''_erru'') = Inr su \<and> flt su = Some vu
             \<and> column (data_lines src ! i) (param @ ''_errd'') = Inr sd \<and> flt sd = Some vd
             \<and> get_path (full ! i) path =
                 Some (JObj [(''value'', JNum v), (''error_plus'', JNum vu),
                             (''error_minus'', JNum vd)])"
    by simp
qed

theorem measurement_shape_by_mode_witness:
  "(0::nat) < length (data_lines src1)
   \<and> ([''stellar_properties'', ''temp_k''], ''Teff'') \<in> set measurements
   \<and> parse_ascii dec_float src1 True = Inr [bare1, bare2]
   \<and> parse_ascii dec_float src1 False = Inr [full1, full2]
   \<and> get_path ([bare1, bare2] ! 0) [''stellar_properties'', ''temp_k''] = Some (JNum (3 / 2))
   \<and> get_path ([full1, full2] ! 0) [''stellar_properties'', ''temp_k''] =
       Some (JObj [(''value'', JNum (3 / 2)), (''error_plus'', JNum (1 / 2)),
                   (''error_minus'', JNum (1 / 4))])"
proof -
  have h: "(0::nat) < length (data_lines src1)"
    "([''stellar_properties'', ''temp_k''], ''Teff'') \<in> set measurements"
    by (simp_all add: data_lines_src1 measurements_def)
  from measurement_shape_by_mode [OF h, of dec_float "[bare1, bare2]" "[full1, full2]"]
    parse_src1_bare parse_src1_full h
  show ?thesis
    by (simp add: data_lines_src1 columns_line1 dec_float_values bare1_def full1_def
        row_of_def triple_def)
qed

section \<open>The retry of \<open>fetch_source\<close>\<close>

lemma retry_after_ssl_error:
  "get URI = Inl SSLError \<Longrightarrow>
   fst (fetch_source get read_file True URI) = [URI, replace URI ''https'' ''http'']"
  by (simp add: fetch_source_def)

lemma single_request_otherwise:
  "get URI \<noteq> Inl SSLError \<Longrightarrow> fst (fetch_source get read_file True URI) = [URI]"
  by (cases "get URI") (simp_all add: fetch_source_def)

lemma retry_of_source_urls:
  "replace ASCII_URL ''https'' ''http'' = ''http'' @ drop 5 ASCII_URL"
  "replace CSV_URL ''https'' ''http'' = ''http'' @ drop 5 CSV_URL"
  by (simp_all add: ASCII_URL_def CSV_URL_def replace_def startswith_def)

text \<open>
  C7 at a URL that has \<open>https\<close> in its path as well: after the certificate failure the
  retry goes to \<open>http://example.org/http-notes.txt\<close>, a URL whose path differs from the
  original's, and what that URL serves is returned.
\<close>

theorem fetch_source_retry_rewrites_path:
  "fetch_source
     (\<lambda>u. if u = ''https://example.org/https-notes.txt'' then Inl SSLError
          else if u = ''http://example.org/http-notes.txt''
               then Inr \<lparr>status_code = 200, resp_text = ''other file''\<rparr>
          else Inr \<lparr>status_code = 404, resp_text = []\<rparr>)
     (\<lambda>p. Inl IOError) True ''https://example.org/https-notes.txt''
   = ([''https://example.org/https-notes.txt'', ''http://example.org/http-notes.txt''],
      Inr [''other file''])"
  by (simp add: fetch_source_def replace_def startswith_def split_on_def)

section \<open>CSV and ASCII\<close>

lemma split_aux_field:
  "list_all (\<lambda>c. \<not> isspace c) f \<Longrightarrow> split_aux cur (f @ rest) = split_aux (cur @ f) rest"
  by (induction f arbitrary: cur) simp_all

lemma split_aux_spaces:
  "list_all isspace s \<Longrightarrow> split_aux [] (s @ rest) = split_aux [] rest"
  by (induction s) simp_all

lemma split_aux_separator:
  assumes "separator s" and "cur \<noteq> []"
  shows "split_aux cur (s @ rest) = cur # split_aux [] rest"
proof -
  from assms(1) obtain c s' where s: "s = c # s'" and c: "isspace c" and s': "list_all isspace s'"
    by (cases s) (auto simp: separator_def)
  have "split_aux cur (s @ rest) = cur # split_aux [] (s' @ rest)"
    using s c assms(2) by simp
  with s' show ?thesis
    by (simp add: split_aux_spaces)
qed

lemma field_value_no_space: "field_value f \<Longrightarrow> list_all (\<lambda>c. \<not> isspace c) f"
  by (simp add: field_value_def list_all_iff)

lemma separator_space: "separator '' ''"
  by (simp add: separator_def isspace_def)

lemma split_ascii_line:
  "list_all field_value fs \<Longrightarrow> list_all separator seps \<Longrightarrow> split_ws (ascii_line fs seps) = fs"
  unfolding split_ws_def
proof (induction fs seps rule: ascii_line.induct)
  case (1 seps)
  then show ?case by simp
next
  case (2 f seps)
  then have "list_all (\<lambda>c. \<not> isspace c) f" "f \<noteq> []"
    by (simp_all add: field_value_no_space) (simp add: field_value_def)
  with split_aux_field [of f "[]" "[]"] show ?case by simp
next
  case (3 f g fs seps)
  let ?s = "case seps of [] \<Rightarrow> '' '' | s # _ \<Rightarrow> s"
  have f: "list_all (\<lambda>c. \<not> isspace c) f" "f \<noteq> []"
    using "3.prems"(1) by (simp_all add: field_value_no_space) (simp add: field_value_def)
  have sep: "separator ?s"
    using "3.prems"(2) by (cases seps) (simp_all add: separator_space)
  have tl: "list_all separator (tl seps)"
    using "3.prems"(2) by (cases seps) simp_all
  have "split_aux [] (ascii_line (f # g # fs) seps) = split_aux f (?s @ ascii_line (g # fs) (tl seps))"
    using split_aux_field [OF f(1), of "[]"] by simp
  also have "\<dots> = f # split_aux [] (ascii_line (g # fs) (tl seps))"
    using sep f(2) by (rule split_aux_separator)
  also have "\<dots> = f # g # fs"
    using "3.IH" "3.prems"(1) tl by simp
  finally show ?case .
qed

lemma comma_free_chars:
  "list_all (\<lambda>c. c \<noteq> CHR '','' \<and> \<not> isspace c) f \<Longrightarrow>
   map (\<lambda>c. if c = CHR '','' then CHR '' '' else c) f = f"
  by (induction f) simp_all

lemma comma_free:
  "field_value f \<Longrightarrow> map (\<lambda>c. if c = CHR '','' then CHR '' '' else c) f = f"
  by (simp add: field_value_def comma_free_chars)

lemma csv_line_normalised:
  "list_all field_value fs \<Longrightarrow> replace (join '','' fs) '','' '' '' = ascii_line fs []"
proof (induction fs)
  case Nil
  then show ?case by (simp add: replace_char)
next
  case (Cons f fs)
  then show ?case
    by (cases fs) (simp_all add: replace_char comma_free)
qed

lemma skipped_ascii_line:
  assumes "list_all field_value fs"
  shows "skipped (ascii_line fs seps) = skipped (ascii_line fs [])"
proof (cases fs)
  case Nil
  then show ?thesis by simp
next
  case (Cons f gs)
  with assms have "f \<noteq> []"
    by (simp add: field_value_def)
  then obtain c f' where "f = c # f'"
    by (cases f) auto
  with Cons show ?thesis
    by (cases gs) (simp_all add: skipped_def startswith_def)
qed

lemma parse_loop_cong:
  "list_all2 (\<lambda>a b. skipped a = skipped b \<and> split_ws a = split_ws b) xs ys \<Longrightarrow>
   parse_loop flt skip xs ret = parse_loop flt skip ys ret"
proof (induction xs ys arbitrary: ret rule: list_all2_induct)
  case Nil
  then show ?case by simp
next
  case (Cons a xs b ys)
  then have sk: "skipped a = skipped b"
    and row: "parse_line flt skip a = parse_line flt skip b"
    by (simp_all add: parse_line_def)
  show ?case
    unfolding parse_loop.simps sk row Cons.IH ..
qed

text \<open>
  C2. Take rows given by their field values, every value non-empty and free of commas and
  whitespace. The CSV source with a header line and each row's values joined by commas,
  and the ASCII source with each row's values joined by whitespace separators of any
  kind, give the same result in both modes: the same records, or an error in both.
\<close>

theorem csv_ascii_equivalence:
  assumes "list_all row_ok rows"
  shows "parse_csv flt (header # map (\<lambda>row. join '','' (fst row)) rows) skip =
         parse_ascii flt (map (\<lambda>row. ascii_line (fst row) (snd row)) rows) skip"
proof -
  have fields: "list_all field_value (fst row)" and seps: "list_all separator (snd row)"
    if "row \<in> set rows" for row
    using assms that by (simp_all add: list_all_iff row_ok_def)
  have csv: "map (\<lambda>x. replace x '','' '' '') (map (\<lambda>row. join '','' (fst row)) rows) =
             map (\<lambda>row. ascii_line (fst row) []) rows"
    using fields by (simp add: csv_line_normalised)
  have "list_all2 (\<lambda>a b. skipped a = skipped b \<and> split_ws a = split_ws b)
          (map (\<lambda>row. ascii_line (fst row) []) rows)
          (map (\<lambda>row. ascii_line (fst row) (snd row)) rows)"
    unfolding list_all2_map1 list_all2_map2 list_all2_same
  proof (intro ballI)
    fix row assume row: "row \<in> set rows"
    show "skipped (ascii_line (fst row) []) = skipped (ascii_line (fst row) (snd row))
        \<and> split_ws (ascii_line (fst row) []) = split_ws (ascii_line (fst row) (snd row))"
      using skipped_ascii_line [OF fields [OF row], of "snd row"]
        split_ascii_line [OF fields [OF row] seps [OF row]]
        split_ascii_line [OF fields [OF row], of "[]"]
      by simp
  qed
  then have loop: "parse_loop flt skip (map (\<lambda>row. ascii_line (fst row) []) rows) [] =
                   parse_loop flt skip (map (\<lambda>row. ascii_line (fst row) (snd row)) rows) []"
    by (rule parse_loop_cong)
  have "parse_csv flt (header # map (\<lambda>row. join '','' (fst row)) rows) skip =
        parse_loop flt skip
          (map (\<lambda>x. replace x '','' '' '') (map (\<lambda>row. join '','' (fst row)) rows)) []"
    by (simp add: parse_csv_def parse_ascii_def del: map_map)
  also have "\<dots> = parse_loop flt skip (map (\<lambda>row. ascii_line (fst row) []) rows) []"
    by (simp only: csv)
  also note loop
  finally show ?thesis
    by (simp only: parse_ascii_def)
qed

lemma ascii_lines_default: "ascii_line fields1 [] = line1" "ascii_line fields2 [] = line2"
  by (simp_all add: fields1_def fields2_def line1_def line2_def)

lemma skipped_note: "skipped ''# note''"
  by (simp add: skipped_def startswith_def)

lemma rows1_ok: "list_all row_ok rows1"
  by (simp add: rows1_def row_ok_def fields1_def fields2_def field_value_def separator_def
      isspace_def)

theorem csv_ascii_equivalence_witness:
  "list_all row_ok rows1
   \<and> parse_csv dec_float (csv_header # map (\<lambda>row. join '','' (fst row)) rows1) False =
       parse_ascii dec_float (map (\<lambda>row. ascii_line (fst row) (snd row)) rows1) False
   \<and> parse_ascii dec_float (map (\<lambda>row. ascii_line (fst row) (snd row)) rows1) False =
       Inr [full1, full2]"
proof -
  have "map (\<lambda>x. replace x '','' '' '') (map (\<lambda>row. join '','' (fst row)) rows1) =
        map (\<lambda>row. ascii_line (fst row) []) rows1"
    using rows1_ok by (simp add: csv_line_normalised list_all_iff row_ok_def)
  also have "\<dots> = [line1, ''# note'', [], line2]"
    by (simp add: rows1_def ascii_lines_default)
  finally have "parse_csv dec_float (csv_header # map (\<lambda>row. join '','' (fst row)) rows1) False =
        Inr [full1, full2]"
    using skipped_note
    by (simp add: parse_csv_def parse_ascii_def skipped_lines parse_line1_full parse_line2_full)
  with csv_ascii_equivalence [OF rows1_ok, of dec_float csv_header False] rows1_ok
  show ?thesis by simp
qed

end
